theory Spec2Isabelle
  imports Main "HOL-Library.AList" "HOL-Library.Sublist"
begin

section \<open>The Tab session controller (mcp/browser/tab.ts)\<close>

text \<open>
  JavaScript strings are modelled as \<open>string\<close>: one \<open>char\<close> per code unit, covering the
  code units below 256. The driver objects the controller receives (requests, responses,
  console messages, dialogs, downloads) are records of the values its code reads from them.
\<close>

subsection \<open>Data model\<close>

text \<open>\<open>playwright.Request\<close>: \<open>url()\<close>, \<open>method()\<close>, \<open>resourceType()\<close> and \<open>failure()\<close>, which is
  \<open>null\<close> (\<open>None\<close>) or an object with an \<open>errorText\<close>.\<close>

record request =
  req_url :: string
  req_method :: string
  req_resourceType :: string
  req_failure :: "string option"

text \<open>\<open>playwright.Response\<close>: \<open>url()\<close>, \<open>status()\<close> and the \<open>content-type\<close> header.\<close>

record response =
  resp_url :: string
  resp_status :: nat
  resp_contentType :: "string option"

datatype status = Pending | Finished | Failed

text \<open>\<open>NetworkRequestData\<close>; the optional fields \<open>response\<close> and \<open>error\<close> are \<open>None\<close> when
  absent or \<open>undefined\<close>.\<close>

record network_request_data =
  nr_request :: request
  nr_response :: "response option"
  nr_status :: status
  nr_error :: "string option"

text \<open>\<open>ConsoleMessage\<close>: \<open>type\<close>, \<open>text\<close> and the result of \<open>toString()\<close>.\<close>

record console_message =
  cm_type :: "string option"
  cm_text :: string
  cm_toString :: string

datatype modal_type = Dialog | FileChooser

text \<open>\<open>ModalState\<close>; \<open>ms_handle\<close> stands for the identity of the dialog or file chooser object.\<close>

record modal_state =
  ms_type :: modal_type
  ms_description :: string
  ms_handle :: nat
  ms_clearedBy :: string

record download_entry =
  dl_download :: nat
  dl_finished :: bool
  dl_outputFile :: string

text \<open>
  The fields of \<open>Tab\<close>. \<open>_requests\<close> is a JavaScript \<open>Map\<close>, which keeps its keys in insertion
  order: an association list, written with \<open>AList.update\<close> (\<open>Map.set\<close>: replace in place, or
  append) and read with \<open>map_of\<close> (\<open>Map.get\<close>). \<open>page_url\<close> is what \<open>page.url()\<close> returns.
\<close>

record tab =
  lastTitle :: string
  consoleMessages :: "console_message list"
  recentConsoleMessages :: "console_message list"
  requests :: "(string \<times> network_request_data) list"
  modalStates :: "modal_state list"
  downloads :: "download_entry list"
  page_url :: string

subsection \<open>Network journal\<close>

definition handleRequest :: "tab \<Rightarrow> request \<Rightarrow> tab" where
  "handleRequest t rq =
     t\<lparr>requests := AList.update (req_url rq)
          \<lparr>nr_request = rq, nr_response = None, nr_status = Pending, nr_error = None\<rparr>
          (requests t)\<rparr>"

definition handleResponse :: "tab \<Rightarrow> response \<Rightarrow> tab" where
  "handleResponse t rs =
     (case map_of (requests t) (resp_url rs) of
        None \<Rightarrow> t
      | Some d \<Rightarrow>
          t\<lparr>requests := AList.update (resp_url rs) (d\<lparr>nr_response := Some rs\<rparr>) (requests t)\<rparr>)"

definition handleRequestFinished :: "tab \<Rightarrow> request \<Rightarrow> tab" where
  "handleRequestFinished t rq =
     (case map_of (requests t) (req_url rq) of
        None \<Rightarrow> t
      | Some d \<Rightarrow>
          t\<lparr>requests := AList.update (req_url rq) (d\<lparr>nr_status := Finished\<rparr>) (requests t)\<rparr>)"

definition handleRequestFailed :: "tab \<Rightarrow> request \<Rightarrow> tab" where
  "handleRequestFailed t rq =
     (case map_of (requests t) (req_url rq) of
        None \<Rightarrow> t
      | Some d \<Rightarrow>
          t\<lparr>requests := AList.update (req_url rq)
               (d\<lparr>nr_status := Failed, nr_error := req_failure rq\<rparr>) (requests t)\<rparr>)"

text \<open>\<open>requests()\<close>: the values of the map, in insertion order.\<close>

definition requests_values :: "tab \<Rightarrow> network_request_data list" where
  "requests_values t = map snd (requests t)"

text \<open>The record stored for a URL, if any.\<close>

definition record_for :: "tab \<Rightarrow> string \<Rightarrow> network_request_data option" where
  "record_for t u = map_of (requests t) u"

text \<open>The events of the network journal, as the page emits them.\<close>

datatype network_event =
    EvRequest request
  | EvResponse response
  | EvRequestFinished request
  | EvRequestFailed request

fun event_url :: "network_event \<Rightarrow> string" where
  "event_url (EvRequest rq) = req_url rq"
| "event_url (EvResponse rs) = resp_url rs"
| "event_url (EvRequestFinished rq) = req_url rq"
| "event_url (EvRequestFailed rq) = req_url rq"

fun handleNetworkEvent :: "tab \<Rightarrow> network_event \<Rightarrow> tab" where
  "handleNetworkEvent t (EvRequest rq) = handleRequest t rq"
| "handleNetworkEvent t (EvResponse rs) = handleResponse t rs"
| "handleNetworkEvent t (EvRequestFinished rq) = handleRequestFinished t rq"
| "handleNetworkEvent t (EvRequestFailed rq) = handleRequestFailed t rq"

subsection \<open>Console journal and its noise filter\<close>

text \<open>
  \<open>String.prototype.toLowerCase\<close> on the code units below 256: the letters \<open>A\<close> to \<open>Z\<close> and
  the capital letters of the Latin-1 block (\<open>0xC0\<close> to \<open>0xDE\<close> without the multiplication
  sign \<open>0xD7\<close>) move up by 32; every other code unit is left as it is.
\<close>

definition toLowerCase_char :: "char \<Rightarrow> char" where
  "toLowerCase_char c =
     (let n = (of_char c :: nat)
      in if (65 \<le> n \<and> n \<le> 90) \<or> (192 \<le> n \<and> n \<le> 222 \<and> n \<noteq> 215)
         then char_of (n + 32) else c)"

definition toLowerCase :: "string \<Rightarrow> string" where
  "toLowerCase s = map toLowerCase_char s"

text \<open>\<open>s.includes(p)\<close>: \<open>p\<close> occurs in \<open>s\<close> as a contiguous run of code units.\<close>

fun js_includes :: "'a list \<Rightarrow> 'a list \<Rightarrow> bool" where
  "js_includes [] p = (p = [])"
| "js_includes (c # cs) p = (prefix p (c # cs) \<or> js_includes cs p)"

definition nextJsPatterns :: "string list" where
  "nextJsPatterns =
     [''_next/static/'', ''webpack-hmr'', ''hot-update'', ''[hmr]'', ''[fast refresh]'',
      ''webpack://'', ''static/chunks/'', ''static/css/'', ''static/media/'']"

text \<open>The \<open>for\<close> loop of \<open>_shouldCaptureConsoleMessage\<close>, returning at the first pattern found.\<close>

fun patterns_loop :: "string \<Rightarrow> string \<Rightarrow> string list \<Rightarrow> bool" where
  "patterns_loop text location [] = True"
| "patterns_loop text location (pattern # rest) =
     (if js_includes text pattern \<or> js_includes location pattern then False
      else patterns_loop text location rest)"

definition shouldCaptureConsoleMessage :: "console_message \<Rightarrow> bool" where
  "shouldCaptureConsoleMessage message =
     (let text = toLowerCase (cm_text message);
          location = toLowerCase (cm_toString message)
      in patterns_loop text location nextJsPatterns)"

definition handleConsoleMessage :: "tab \<Rightarrow> console_message \<Rightarrow> tab" where
  "handleConsoleMessage t message =
     (if \<not> shouldCaptureConsoleMessage message then t
      else t\<lparr>consoleMessages := consoleMessages t @ [message],
             recentConsoleMessages := recentConsoleMessages t @ [message]\<rparr>)"

text \<open>
  The filter in the words of the specification: \<open>s\<close> contains \<open>p\<close> when the two are compared
  without regard to case, and an entry is noise when its text or its long form contains a
  deny-listed substring in that sense.
\<close>

definition contains_ignoring_case :: "string \<Rightarrow> string \<Rightarrow> bool" where
  "contains_ignoring_case s p = js_includes (toLowerCase s) (toLowerCase p)"

definition is_noise :: "console_message \<Rightarrow> bool" where
  "is_noise message =
     list_ex (\<lambda>p. contains_ignoring_case (cm_text message) p
                \<or> contains_ignoring_case (cm_toString message) p) nextJsPatterns"

subsection \<open>Modal states\<close>

text \<open>
  \<open>setModalState\<close> pushes the state and then emits \<open>TabEvents.modalState\<close>. The push is
  \<open>setModalState_push\<close>; the emit reaches the listener of a race in progress and is part of
  the race below (\<open>emit_modalState\<close>). \<open>clearModalState\<close> compares by identity, which the
  handle in a \<open>modal_state\<close> stands for.
\<close>

definition setModalState_push :: "tab \<Rightarrow> modal_state \<Rightarrow> tab" where
  "setModalState_push t modalState = t\<lparr>modalStates := modalStates t @ [modalState]\<rparr>"

definition clearModalState :: "tab \<Rightarrow> modal_state \<Rightarrow> tab" where
  "clearModalState t modalState =
     t\<lparr>modalStates := filter (\<lambda>state. state \<noteq> modalState) (modalStates t)\<rparr>"

definition javaScriptBlocked :: "tab \<Rightarrow> bool" where
  "javaScriptBlocked t = list_ex (\<lambda>state. ms_type state = Dialog) (modalStates t)"

subsection \<open>waitForTimeout\<close>

text \<open>What \<open>waitForTimeout\<close> awaits: a timer of the controller's own, or a timer set inside
  the page by \<open>page.evaluate\<close>; each with its delay in milliseconds.\<close>

datatype sleep = ControllerSleep nat | PageSleep nat

definition waitForTimeout :: "tab \<Rightarrow> nat \<Rightarrow> sleep" where
  "waitForTimeout t time =
     (if javaScriptBlocked t then ControllerSleep time else PageSleep 1000)"

subsection \<open>navigate\<close>

text \<open>
  A promise as the code awaits it: it is fulfilled with a value or rejected after some
  milliseconds, or stays pending. For \<open>downloadEvent\<close> the time is counted from the moment
  \<open>page.goto\<close> rejects (\<open>0\<close> when it had settled by then); a rejection of
  \<open>page.waitForEvent\<close> is logged by \<open>logUnhandledError\<close> and fulfils it with \<open>undefined\<close>,
  which is \<open>None\<close>.
\<close>

datatype 'a promise = Fulfils nat 'a | Rejects nat string | Pending_forever

text \<open>
  \<open>Promise.race([p, timer])\<close> where the timer fulfils with \<open>fallback\<close> after \<open>ms\<close>: the
  race settles with the one whose callback runs first. When the promise settles in the
  very millisecond in which the timer fires, that is the one whose callback was queued
  first; the code fixes no order between the two, so the order is an input.
  \<open>Inl\<close> is a rejected race.
\<close>

datatype tie_order = Promise_first | Timer_first

definition race_timer :: "tie_order \<Rightarrow> 'a promise \<Rightarrow> nat \<Rightarrow> 'a \<Rightarrow> string + 'a" where
  "race_timer tie p ms fallback =
     (case p of
        Fulfils t v \<Rightarrow>
          if t < ms \<or> (t = ms \<and> tie = Promise_first) then Inr v else Inr fallback
      | Rejects t e \<Rightarrow>
          if t < ms \<or> (t = ms \<and> tie = Promise_first) then Inl e else Inr fallback
      | Pending_forever \<Rightarrow> Inr fallback)"

text \<open>How long that race takes.\<close>

definition race_timer_elapsed :: "'a promise \<Rightarrow> nat \<Rightarrow> nat" where
  "race_timer_elapsed p ms =
     (case p of
        Fulfils t v \<Rightarrow> min t ms
      | Rejects t e \<Rightarrow> min t ms
      | Pending_forever \<Rightarrow> ms)"

definition mightBeDownload :: "string \<Rightarrow> bool" where
  "mightBeDownload message =
     (js_includes message ''net::ERR_ABORTED'' \<or> js_includes message ''Download is starting'')"

text \<open>
  \<open>navigate\<close>: \<open>goto\<close> is \<open>None\<close> when \<open>page.goto\<close> succeeds and the message of the error
  it throws otherwise; \<open>downloadEvent\<close> is the promise made before the load, fulfilled with
  the download or with \<open>undefined\<close>; \<open>tie\<close> is the order of the callbacks when that promise
  settles as the 3000 ms timer fires. The result is the message of the error thrown
  (\<open>Inl\<close>) or a normal return, with the milliseconds spent in the timers after \<open>page.goto\<close>
  rejected. After a successful load, \<open>waitForLoadState\<close> logs its own failure and never
  throws.
\<close>

definition navigate ::
  "tie_order \<Rightarrow> string option \<Rightarrow> nat option promise \<Rightarrow> (string + unit) \<times> nat" where
  "navigate tie goto downloadEvent =
     (case goto of
        None \<Rightarrow> (Inr (), 0)
      | Some message \<Rightarrow>
          if \<not> mightBeDownload message then (Inl message, 0)
          else (case race_timer tie downloadEvent 3000 None of
                  Inl rejection \<Rightarrow> (Inl rejection, race_timer_elapsed downloadEvent 3000)
                | Inr None \<Rightarrow> (Inl message, race_timer_elapsed downloadEvent 3000)
                | Inr (Some download) \<Rightarrow>
                    (Inr (), race_timer_elapsed downloadEvent 3000 + 500)))"

subsection \<open>refLocators\<close>

record ref_param =
  rp_element :: string
  rp_ref :: string

text \<open>The value returned for one reference: the locator (its selector and description) and
  the resolved selector rendered by \<open>asLocator\<close>.\<close>

record ref_locator =
  rl_selector :: string
  rl_description :: string
  rl_resolved :: string

definition ref_not_found :: "string \<Rightarrow> string" where
  "ref_not_found r =
     ''Ref '' @ r @ '' not found in the current page snapshot. Try capturing new snapshot.''"

text \<open>
  The body of the \<open>async\<close> function mapped over the batch. \<open>resolveSelector\<close> is the page's
  answer to \<open>locator._resolveSelector()\<close> for a selector (\<open>None\<close> when it rejects) and
  \<open>asLocator\<close> the rendering function of \<open>playwright-core\<close>; both are parameters.
\<close>

definition refLocator_one ::
  "(string \<Rightarrow> string option) \<Rightarrow> (string \<Rightarrow> string) \<Rightarrow> ref_param \<Rightarrow> string + ref_locator" where
  "refLocator_one resolveSelector asLocator param =
     (case resolveSelector (''aria-ref='' @ rp_ref param) of
        None \<Rightarrow> Inl (ref_not_found (rp_ref param))
      | Some resolvedSelector \<Rightarrow>
          Inr \<lparr>rl_selector = ''aria-ref='' @ rp_ref param,
               rl_description = rp_element param,
               rl_resolved = asLocator resolvedSelector\<rparr>)"

text \<open>
  \<open>Promise.all\<close> over promises with the given outcomes, which settle in the order \<open>order\<close>
  (indices into the list): it rejects with the first rejection to settle, fulfils with all
  values in the order of the list once every promise has fulfilled, and stays pending
  (\<open>None\<close>) otherwise.
\<close>

fun first_rejection :: "('e + 'a) list \<Rightarrow> nat list \<Rightarrow> 'e option" where
  "first_rejection rs [] = None"
| "first_rejection rs (i # order) =
     (if i < length rs
      then (case rs ! i of Inl e \<Rightarrow> Some e | Inr v \<Rightarrow> first_rejection rs order)
      else first_rejection rs order)"

definition promise_all :: "('e + 'a) list \<Rightarrow> nat list \<Rightarrow> ('e + 'a list) option" where
  "promise_all rs order =
     (case first_rejection rs order of
        Some e \<Rightarrow> Some (Inl e)
      | None \<Rightarrow>
          if list_ex (\<lambda>i. i \<notin> set order) [0..<length rs] then None
          else Some (Inr (List.map_filter (\<lambda>r. case r of Inl e \<Rightarrow> None | Inr v \<Rightarrow> Some v) rs)))"

definition refLocators ::
  "(string \<Rightarrow> string option) \<Rightarrow> (string \<Rightarrow> string) \<Rightarrow> ref_param list \<Rightarrow> nat list
     \<Rightarrow> (string + ref_locator list) option" where
  "refLocators resolveSelector asLocator params order =
     promise_all (map (refLocator_one resolveSelector asLocator) params) order"

text \<open>
  The specification's \<open>resolveReferences\<close>, read literally: every reference is returned as
  its own settled result, a failure next to the successes.
\<close>

definition resolveReferences_settled ::
  "(string \<Rightarrow> string option) \<Rightarrow> (string \<Rightarrow> string) \<Rightarrow> ref_param list
     \<Rightarrow> (string + ref_locator) list" where
  "resolveReferences_settled resolveSelector asLocator params =
     map (refLocator_one resolveSelector asLocator) params"

subsection \<open>Racing an action against modal states\<close>

text \<open>What the page and its driver do while an operation of the controller is waiting.\<close>

datatype tab_event =
    Console console_message
  | Network network_event
  | SetModalState modal_state

fun handleTabEvent :: "tab \<Rightarrow> tab_event \<Rightarrow> tab" where
  "handleTabEvent t (Console message) = handleConsoleMessage t message"
| "handleTabEvent t (Network e) = handleNetworkEvent t e"
| "handleTabEvent t (SetModalState modalState) = setModalState_push t modalState"

fun is_modal_event :: "tab_event \<Rightarrow> bool" where
  "is_modal_event (SetModalState modalState) = True"
| "is_modal_event e = False"

text \<open>
  The schedule a race runs against: events of the page, and the settling of the promise
  that \<open>action()\<close> returned, fulfilled (with what the action left behind) or rejected. Each
  entry is handled to the end, promise reactions included, before the next one arrives.
\<close>

datatype 'a race_event =
    Page tab_event
  | ActionResolves 'a
  | ActionRejects string

text \<open>
  The state of one call of \<open>_raceAgainstModalStates\<close>: the tab, whether \<open>action()\<close> was
  called and has settled, what it left when it completed, whether the one-shot listener is
  still registered and how often it ran, the value of the \<open>ManualPromise\<close>, and the
  settlement of \<open>Promise.race\<close> (\<open>Inl\<close> a rejection), which is what the caller's \<open>await\<close>
  receives.
\<close>

record 'a race =
  race_tab :: tab
  action_started :: bool
  action_settled :: bool
  action_done :: "'a option"
  listener :: bool
  listener_calls :: nat
  manual_promise :: "modal_state list option"
  race_result :: "(string + modal_state list) option"

text \<open>A promise settles once: a later settlement is dropped.\<close>

definition settle :: "string + modal_state list \<Rightarrow> 'a race \<Rightarrow> 'a race" where
  "settle v r = (if race_result r = None then r\<lparr>race_result := Some v\<rparr> else r)"

text \<open>The synchronous part of \<open>_raceAgainstModalStates\<close>, up to \<open>Promise.race\<close>.\<close>

definition raceAgainstModalStates :: "tab \<Rightarrow> 'a race" where
  "raceAgainstModalStates t =
     (if modalStates t \<noteq> []
      then \<lparr>race_tab = t, action_started = False, action_settled = False, action_done = None,
            listener = False, listener_calls = 0, manual_promise = None,
            race_result = Some (Inr (modalStates t))\<rparr>
      else \<lparr>race_tab = t, action_started = True, action_settled = False, action_done = None,
            listener = True, listener_calls = 0, manual_promise = None,
            race_result = None\<rparr>)"

text \<open>\<open>emit(TabEvents.modalState, modalState)\<close>: a listener registered with \<open>once\<close> is
  removed and called; it resolves the \<open>ManualPromise\<close> with \<open>[modalState]\<close>.\<close>

definition emit_modalState :: "'a race \<Rightarrow> modal_state \<Rightarrow> 'a race" where
  "emit_modalState r modalState =
     (if listener r
      then settle (Inr [modalState])
             (r\<lparr>listener := False, listener_calls := Suc (listener_calls r),
                manual_promise := (case manual_promise r of
                                     None \<Rightarrow> Some [modalState]
                                   | Some v \<Rightarrow> Some v)\<rparr>)
      else r)"

fun race_step :: "'a race \<Rightarrow> 'a race_event \<Rightarrow> 'a race" where
  "race_step r (Page e) =
     (case e of
        SetModalState modalState \<Rightarrow>
          emit_modalState (r\<lparr>race_tab := setModalState_push (race_tab r) modalState\<rparr>) modalState
      | _ \<Rightarrow> r\<lparr>race_tab := handleTabEvent (race_tab r) e\<rparr>)"
| "race_step r (ActionResolves a) =
     (if action_started r \<and> \<not> action_settled r
      then settle (Inr []) (r\<lparr>action_settled := True, action_done := Some a, listener := False\<rparr>)
      else r)"
| "race_step r (ActionRejects e) =
     (if action_started r \<and> \<not> action_settled r
      then settle (Inl e) (r\<lparr>action_settled := True\<rparr>)
      else r)"

definition race_run :: "'a race \<Rightarrow> 'a race_event list \<Rightarrow> 'a race" where
  "race_run r evs = foldl race_step r evs"

subsection \<open>captureSnapshot\<close>

datatype snapshot_mode = Full | Incremental

record tab_snapshot =
  ts_url :: string
  ts_title :: string
  ts_ariaSnapshot :: string
  ts_modalStates :: "modal_state list"
  ts_consoleMessages :: "console_message list"
  ts_downloads :: "download_entry list"

text \<open>
  The code after the \<open>await\<close> of the race. The action of \<open>captureSnapshot\<close> completes with
  the aria snapshot (of \<open>page._snapshotForAI\<close>, to which \<open>mode\<close> is passed on) and the title
  it read from the page, and only then assigns \<open>tabSnapshot\<close>, so \<open>tabSnapshot\<close> is defined
  exactly when the action has completed; a rejected race is rethrown. The result is the
  snapshot returned (or the error thrown) and the tab as the call leaves it.
\<close>

definition captureSnapshot_continue ::
  "(string \<times> string) race \<Rightarrow> string + modal_state list \<Rightarrow> (string + tab_snapshot) \<times> tab" where
  "captureSnapshot_continue r res =
     (case res of
        Inl e \<Rightarrow> (Inl e, race_tab r)
      | Inr modalStates' \<Rightarrow>
          (case action_done r of
             Some (snapshot, title) \<Rightarrow>
               (Inr \<lparr>ts_url = page_url (race_tab r), ts_title = title,
                     ts_ariaSnapshot = snapshot, ts_modalStates = [],
                     ts_consoleMessages = recentConsoleMessages (race_tab r),
                     ts_downloads = downloads (race_tab r)\<rparr>,
                (race_tab r)\<lparr>recentConsoleMessages := []\<rparr>)
           | None \<Rightarrow>
               (Inr \<lparr>ts_url = page_url (race_tab r), ts_title = '''',
                     ts_ariaSnapshot = '''', ts_modalStates = modalStates',
                     ts_consoleMessages = [], ts_downloads = []\<rparr>,
                race_tab r)))"

text \<open>Waiting for the race: the schedule is consumed until the race has settled; a race
  that never settles leaves \<open>captureSnapshot\<close> pending (\<open>None\<close>).\<close>

fun captureSnapshot_await ::
  "(string \<times> string) race \<Rightarrow> (string \<times> string) race_event list
     \<Rightarrow> ((string + tab_snapshot) \<times> tab) option" where
  "captureSnapshot_await r [] =
     (case race_result r of
        Some res \<Rightarrow> Some (captureSnapshot_continue r res)
      | None \<Rightarrow> None)"
| "captureSnapshot_await r (e # evs) =
     (case race_result r of
        Some res \<Rightarrow> Some (captureSnapshot_continue r res)
      | None \<Rightarrow> captureSnapshot_await (race_step r e) evs)"

definition captureSnapshot ::
  "snapshot_mode \<Rightarrow> tab \<Rightarrow> (string \<times> string) race_event list
     \<Rightarrow> ((string + tab_snapshot) \<times> tab) option" where
  "captureSnapshot mode t evs = captureSnapshot_await (raceAgainstModalStates t) evs"

text \<open>A snapshot that is empty but for its modal states, as the specification words the
  result of an interrupted capture.\<close>

definition empty_snapshot :: "modal_state list \<Rightarrow> tab_snapshot" where
  "empty_snapshot ms =
     \<lparr>ts_url = '''', ts_title = '''', ts_ariaSnapshot = '''', ts_modalStates = ms,
      ts_consoleMessages = [], ts_downloads = []\<rparr>"

section \<open>Rendering a network record (mcp/browser/tools/network.ts)\<close>

text \<open>\<open>withTimeout(promise, timeoutMs, fallback)\<close>, with the order of the callbacks when
  the promise settles as the timer fires.\<close>

definition withTimeout :: "tie_order \<Rightarrow> 'a promise \<Rightarrow> nat \<Rightarrow> 'a \<Rightarrow> string + 'a" where
  "withTimeout tie p timeoutMs fallback = race_timer tie p timeoutMs fallback"

text \<open>\<open>p.catch(() => v)\<close>, and \<open>p.catch(async () => await q)\<close> where \<open>q\<close> starts when \<open>p\<close>
  rejects.\<close>

definition catch_value :: "'a promise \<Rightarrow> 'a \<Rightarrow> 'a promise" where
  "catch_value p v = (case p of Rejects t e \<Rightarrow> Fulfils t v | _ \<Rightarrow> p)"

definition delay :: "nat \<Rightarrow> 'a promise \<Rightarrow> 'a promise" where
  "delay d p =
     (case p of
        Fulfils t v \<Rightarrow> Fulfils (d + t) v
      | Rejects t e \<Rightarrow> Rejects (d + t) e
      | Pending_forever \<Rightarrow> Pending_forever)"

definition catch_async :: "'a promise \<Rightarrow> 'a promise \<Rightarrow> 'a promise" where
  "catch_async p q = (case p of Rejects t e \<Rightarrow> delay t q | _ \<Rightarrow> p)"

definition then_map :: "('a \<Rightarrow> 'b) \<Rightarrow> 'a promise \<Rightarrow> 'b promise" where
  "then_map f p =
     (case p of
        Fulfils t v \<Rightarrow> Fulfils t (f v)
      | Rejects t e \<Rightarrow> Rejects t e
      | Pending_forever \<Rightarrow> Pending_forever)"

definition CAPTURE_BODY_RESOURCE_TYPES :: "string list" where
  "CAPTURE_BODY_RESOURCE_TYPES = [''xhr'', ''fetch'', ''document'']"

text \<open>\<open>result.response.body\<close>: a parsed JSON value or a string.\<close>

datatype 'j body = Json 'j | Text string

text \<open>
  The body captured by \<open>renderRequest\<close> for a record that has a response, from the
  request's resource type, the response's \<open>content-type\<close> header, and the promises of
  \<open>response.json()\<close> and \<open>response.text()\<close> (each timed from its call); \<open>tie\<close> is the order
  of the callbacks when the body arrives as the 2000 ms timer fires.
\<close>

definition renderRequest_body ::
  "tie_order \<Rightarrow> string \<Rightarrow> string option \<Rightarrow> 'j promise \<Rightarrow> string promise \<Rightarrow> 'j body" where
  "renderRequest_body tie resourceType contentTypeHeader json text =
     (let shouldCaptureBody = List.member CAPTURE_BODY_RESOURCE_TYPES resourceType
      in if shouldCaptureBody
         then (let contentType = (case contentTypeHeader of None \<Rightarrow> '''' | Some c \<Rightarrow> c)
               in if js_includes contentType ''application/json''
                  then (case withTimeout tie
                               (catch_async (then_map Json json)
                                  (then_map Text (catch_value text ''<body unavailable>'')))
                               2000 (Text ''<body capture timeout>'') of
                          Inl e \<Rightarrow> Text ''<failed to capture body>''
                        | Inr b \<Rightarrow> b)
                  else if js_includes contentType ''text/''
                          \<or> js_includes contentType ''application/javascript''
                  then (case withTimeout tie (catch_value text ''<body unavailable>'') 2000
                               ''<body capture timeout>'' of
                          Inl e \<Rightarrow> Text ''<failed to capture body>''
                        | Inr text' \<Rightarrow>
                            Text (if length text' > 5000
                                  then take 5000 text' @ ''... (truncated)''
                                  else text'))
                  else Text ''<non-text content>'')
         else Text ''<body not captured for static asset>'')"

section \<open>Concrete inputs\<close>

text \<open>A tab with empty journals, as the constructor leaves it.\<close>

definition new_tab :: tab where
  "new_tab = \<lparr>lastTitle = ''about:blank'', consoleMessages = [], recentConsoleMessages = [],
     requests = [], modalStates = [], downloads = [], page_url = ''about:blank''\<rparr>"

definition example_request :: request where
  "example_request =
     \<lparr>req_url = ''https://a/x'', req_method = ''GET'', req_resourceType = ''fetch'',
      req_failure = None\<rparr>"

definition example_response :: response where
  "example_response =
     \<lparr>resp_url = ''https://a/x'', resp_status = 200, resp_contentType = Some ''text/plain''\<rparr>"

definition example_dialog :: modal_state where
  "example_dialog =
     \<lparr>ms_type = Dialog, ms_description = ''\"alert\" dialog with message \"hi\"'',
      ms_handle = 1, ms_clearedBy = ''browser_handle_dialog''\<rparr>"

definition example_log :: console_message where
  "example_log =
     \<lparr>cm_type = Some ''log'', cm_text = ''ready'',
      cm_toString = ''[LOG] ready @ https://a/app.js:3''\<rparr>"

definition example_hmr_log :: console_message where
  "example_hmr_log =
     \<lparr>cm_type = Some ''log'', cm_text = ''[HMR] connected'',
      cm_toString = ''[LOG] [HMR] connected @ https://a/app.js:9''\<rparr>"

definition example_page :: tab where
  "example_page = new_tab\<lparr>page_url := ''https://a/x''\<rparr>"

definition example_blocked_page :: tab where
  "example_blocked_page = new_tab\<lparr>modalStates := [example_dialog], page_url := ''https://a/x''\<rparr>"

definition example_refs :: "ref_param list" where
  "example_refs =
     [\<lparr>rp_element = ''Submit button'', rp_ref = ''e1''\<rparr>,
      \<lparr>rp_element = ''Stale link'', rp_ref = ''e9''\<rparr>]"

text \<open>A batch of two references that the page does not know.\<close>

definition example_stale_refs :: "ref_param list" where
  "example_stale_refs =
     [\<lparr>rp_element = ''Old menu'', rp_ref = ''e8''\<rparr>,
      \<lparr>rp_element = ''Stale link'', rp_ref = ''e9''\<rparr>]"

text \<open>A page whose current snapshot knows the reference \<open>e1\<close> only.\<close>

definition example_resolveSelector :: "string \<Rightarrow> string option" where
  "example_resolveSelector selector =
     (if selector = ''aria-ref=e1'' then Some ''internal:role=button'' else None)"

definition example_asLocator :: "string \<Rightarrow> string" where
  "example_asLocator resolvedSelector = ''locator('' @ resolvedSelector @ '')''"

section \<open>Properties of the embedding\<close>

subsection \<open>Auxiliary facts\<close>

text \<open>The network journal, one handler at a time.\<close>

lemma record_for_handleRequest:
  "record_for (handleRequest t rq) u =
     (if u = req_url rq
      then Some \<lparr>nr_request = rq, nr_response = None, nr_status = Pending, nr_error = None\<rparr>
      else record_for t u)"
  by (simp add: record_for_def handleRequest_def update_conv')

lemma record_for_handleResponse:
  "record_for (handleResponse t rs) u =
     (if u = resp_url rs
      then map_option (\<lambda>d. d\<lparr>nr_response := Some rs\<rparr>) (record_for t u)
      else record_for t u)"
  by (simp add: record_for_def handleResponse_def update_conv' split: option.splits)

lemma record_for_handleRequestFinished:
  "record_for (handleRequestFinished t rq) u =
     (if u = req_url rq
      then map_option (\<lambda>d. d\<lparr>nr_status := Finished\<rparr>) (record_for t u)
      else record_for t u)"
  by (simp add: record_for_def handleRequestFinished_def update_conv' split: option.splits)

lemma record_for_handleRequestFailed:
  "record_for (handleRequestFailed t rq) u =
     (if u = req_url rq
      then map_option (\<lambda>d. d\<lparr>nr_status := Failed, nr_error := req_failure rq\<rparr>) (record_for t u)
      else record_for t u)"
  by (simp add: record_for_def handleRequestFailed_def update_conv' split: option.splits)

lemmas record_for_simps =
  record_for_handleRequest record_for_handleResponse
  record_for_handleRequestFinished record_for_handleRequestFailed

lemma example_scenario:
  "requests_values (handleRequestFinished (handleResponse
       (handleRequest new_tab example_request) example_response) example_request)
     = [\<lparr>nr_request = example_request, nr_response = Some example_response,
         nr_status = Finished, nr_error = None\<rparr>]"
  by (simp add: requests_values_def handleRequest_def handleResponse_def
        handleRequestFinished_def new_tab_def example_request_def example_response_def)

text \<open>Substrings, and the filter of the console journal.\<close>

lemma js_includes_iff: "js_includes s p \<longleftrightarrow> (\<exists>a b. s = a @ p @ b)"
proof (induction s)
  case Nil
  then show ?case by auto
next
  case (Cons c cs)
  show ?case
  proof
    assume "js_includes (c # cs) p"
    then consider "prefix p (c # cs)" | "js_includes cs p" by auto
    then show "\<exists>a b. c # cs = a @ p @ b"
    proof cases
      case 1
      then obtain b where "c # cs = p @ b" by (auto simp: prefix_def)
      then have "c # cs = [] @ p @ b" by simp
      then show ?thesis by blast
    next
      case 2
      with Cons.IH obtain a b where "cs = a @ p @ b" by blast
      then have "c # cs = (c # a) @ p @ b" by simp
      then show ?thesis by blast
    qed
  next
    assume "\<exists>a b. c # cs = a @ p @ b"
    then obtain a b where ab: "c # cs = a @ p @ b" by blast
    show "js_includes (c # cs) p"
    proof (cases a)
      case Nil
      with ab have "prefix p (c # cs)" by (simp add: prefix_def)
      then show ?thesis by simp
    next
      case (Cons x a')
      with ab have "cs = a' @ p @ b" by simp
      with Cons.IH have "js_includes cs p" by blast
      then show ?thesis by simp
    qed
  qed
qed

lemma map_eq_appendD:
  assumes "map f s = a @ b"
  shows "\<exists>s1 s2. s = s1 @ s2 \<and> map f s1 = a \<and> map f s2 = b"
proof -
  have "map f (take (length a) s) = take (length a) (map f s)" by (simp add: take_map)
  also have "\<dots> = a" using assms by simp
  finally have 1: "map f (take (length a) s) = a" .
  have "map f (drop (length a) s) = drop (length a) (map f s)" by (simp add: drop_map)
  also have "\<dots> = b" using assms by simp
  finally have 2: "map f (drop (length a) s) = b" .
  have "s = take (length a) s @ drop (length a) s" by simp
  with 1 2 show ?thesis by blast
qed

lemma contains_ignoring_case_iff:
  "contains_ignoring_case s p
     \<longleftrightarrow> (\<exists>a u b. s = a @ u @ b \<and> toLowerCase u = toLowerCase p)"
proof
  assume "contains_ignoring_case s p"
  then obtain a b where "map toLowerCase_char s = a @ (map toLowerCase_char p @ b)"
    by (auto simp: contains_ignoring_case_def js_includes_iff toLowerCase_def)
  from map_eq_appendD [OF this]
  obtain a' r where s: "s = a' @ r" and r: "map toLowerCase_char r = map toLowerCase_char p @ b"
    by blast
  from map_eq_appendD [OF r]
  obtain u b' where "r = u @ b'" and "map toLowerCase_char u = map toLowerCase_char p"
    by blast
  with s show "\<exists>a u b. s = a @ u @ b \<and> toLowerCase u = toLowerCase p"
    by (auto simp: toLowerCase_def)
next
  assume "\<exists>a u b. s = a @ u @ b \<and> toLowerCase u = toLowerCase p"
  then obtain a u b where "s = a @ u @ b" and "toLowerCase u = toLowerCase p" by blast
  then have "toLowerCase s = toLowerCase a @ toLowerCase p @ toLowerCase b"
    by (simp add: toLowerCase_def)
  then show "contains_ignoring_case s p"
    unfolding contains_ignoring_case_def js_includes_iff by blast
qed

lemma toLowerCase_patterns: "list_all (\<lambda>p. toLowerCase p = p) nextJsPatterns"
  by (simp add: nextJsPatterns_def toLowerCase_def toLowerCase_char_def)

lemma patterns_loop_iff:
  "patterns_loop text location ps
     \<longleftrightarrow> \<not> list_ex (\<lambda>p. js_includes text p \<or> js_includes location p) ps"
  by (induction ps) auto

lemma shouldCapture_iff_not_noise: "shouldCaptureConsoleMessage message \<longleftrightarrow> \<not> is_noise message"
proof -
  have "list_ex (\<lambda>p. js_includes (toLowerCase (cm_text message)) p
                    \<or> js_includes (toLowerCase (cm_toString message)) p) nextJsPatterns
        = is_noise message"
    using toLowerCase_patterns
    by (simp add: is_noise_def contains_ignoring_case_def list_ex_iff list_all_iff)
  then show ?thesis
    by (simp add: shouldCaptureConsoleMessage_def patterns_loop_iff)
qed

lemma noise_examples: "is_noise example_hmr_log" "\<not> is_noise example_log"
  by code_simp+

text \<open>The race: a settled race stays settled, and a removed listener stays removed.\<close>

declare race_step.simps [simp del]

lemma race_step_modal:
  "race_step r (Page (SetModalState m)) =
     emit_modalState (r\<lparr>race_tab := setModalState_push (race_tab r) m\<rparr>) m"
  by (simp add: race_step.simps)

lemma race_step_resolves:
  "race_step r (ActionResolves a) =
     (if action_started r \<and> \<not> action_settled r
      then settle (Inr []) (r\<lparr>action_settled := True, action_done := Some a, listener := False\<rparr>)
      else r)"
  by (simp add: race_step.simps)

lemma race_result_settle: "race_result (settle v r) = (case race_result r of None \<Rightarrow> Some v | Some w \<Rightarrow> Some w)"
  by (simp add: settle_def split: option.splits)

lemma settle_fields [simp]:
  "race_tab (settle v r) = race_tab r"
  "action_started (settle v r) = action_started r"
  "action_settled (settle v r) = action_settled r"
  "action_done (settle v r) = action_done r"
  "listener (settle v r) = listener r"
  "listener_calls (settle v r) = listener_calls r"
  "manual_promise (settle v r) = manual_promise r"
  by (simp_all add: settle_def)

lemma race_step_settled:
  "race_result r = Some v \<Longrightarrow> race_result (race_step r e) = Some v"
  by (cases e) (auto simp: race_step.simps race_result_settle emit_modalState_def split: tab_event.splits)

lemma race_run_settled:
  "race_result r = Some v \<Longrightarrow> race_result (race_run r evs) = Some v"
  unfolding race_run_def
  by (induction evs arbitrary: r) (simp_all add: race_step_settled)

lemma race_step_no_listener:
  "\<not> listener r \<Longrightarrow>
     \<not> listener (race_step r e)
     \<and> listener_calls (race_step r e) = listener_calls r
     \<and> manual_promise (race_step r e) = manual_promise r"
  by (cases e) (auto simp: race_step.simps emit_modalState_def split: tab_event.splits)

lemma race_run_no_listener:
  "\<not> listener r \<Longrightarrow>
     \<not> listener (race_run r evs)
     \<and> listener_calls (race_run r evs) = listener_calls r
     \<and> manual_promise (race_run r evs) = manual_promise r"
  unfolding race_run_def
proof (induction evs arbitrary: r)
  case Nil
  then show ?case by simp
next
  case (Cons e evs)
  from race_step_no_listener [OF Cons.prems, of e] Cons.IH [of "race_step r e"]
  show ?case by simp
qed

lemma race_step_quiet:
  "\<not> is_modal_event e \<Longrightarrow>
     race_step r (Page e) = r\<lparr>race_tab := handleTabEvent (race_tab r) e\<rparr>"
  by (cases e) (simp_all add: race_step.simps)

lemma race_run_quiet:
  "list_all (\<lambda>e. \<not> is_modal_event e) pre \<Longrightarrow>
     race_run r (map Page pre) = r\<lparr>race_tab := foldl handleTabEvent (race_tab r) pre\<rparr>"
  unfolding race_run_def
  by (induction pre arbitrary: r) (simp_all add: race_step_quiet)

lemma race_run_append: "race_run r (xs @ ys) = race_run (race_run r xs) ys"
  by (simp add: race_run_def)

lemma race_run_Cons: "race_run r (e # evs) = race_run (race_step r e) evs"
  by (simp add: race_run_def)

lemma await_settled:
  "race_result r = Some res \<Longrightarrow>
     captureSnapshot_await r evs = Some (captureSnapshot_continue r res)"
  by (cases evs) simp_all

lemma await_quiet:
  "race_result r = None \<Longrightarrow> list_all (\<lambda>e. \<not> is_modal_event e) pre \<Longrightarrow>
     captureSnapshot_await r (map Page pre @ e # post) =
     captureSnapshot_await
       (race_step (r\<lparr>race_tab := foldl handleTabEvent (race_tab r) pre\<rparr>) e) post"
proof (induction pre arbitrary: r)
  case Nil
  then show ?case by simp
next
  case (Cons x pre)
  let ?r' = "r\<lparr>race_tab := handleTabEvent (race_tab r) x\<rparr>"
  from Cons.prems have x: "\<not> is_modal_event x" and pre: "list_all (\<lambda>e. \<not> is_modal_event e) pre"
    by simp_all
  have "race_result ?r' = None" using Cons.prems(1) by simp
  from Cons.IH [OF this pre] Cons.prems(1) x show ?case
    by (simp add: race_step_quiet)
qed

text \<open>\<open>Promise.all\<close>.\<close>

lemma first_rejection_None_iff:
  "first_rejection rs order = None \<longleftrightarrow> (\<forall>i\<in>set order. i < length rs \<longrightarrow> \<not> isl (rs ! i))"
proof (induction order)
  case Nil
  then show ?case by simp
next
  case (Cons i order)
  then show ?case
    by (cases "i < length rs"; cases "rs ! i") auto
qed

lemma map_filter_all_Inr:
  "List.map_filter (\<lambda>r. case r of Inl e \<Rightarrow> None | Inr v \<Rightarrow> Some v) (map Inr vs) = vs"
  by (induction vs) (simp_all add: List.map_filter_simps)

lemma promise_all_fulfilled:
  "promise_all (map Inr vs) order =
     (if list_ex (\<lambda>i. i \<notin> set order) [0..<length vs] then None else Some (Inr vs))"
proof -
  have "first_rejection (map Inr vs) order = (None :: 'a option)"
    by (simp add: first_rejection_None_iff)
  then show ?thesis
    by (simp add: promise_all_def map_filter_all_Inr)
qed

lemma first_rejection_at:
  assumes "i < length rs" and "rs ! i = Inl e"
    and "list_all (\<lambda>j. j < length rs \<longrightarrow> \<not> isl (rs ! j)) earlier"
  shows "first_rejection rs (earlier @ i # later) = Some e"
  using assms(3)
proof (induction earlier)
  case Nil
  from assms(1,2) show ?case by simp
next
  case (Cons j earlier)
  then show ?case
    by (cases "j < length rs"; cases "rs ! j") auto
qed

subsection \<open>The claims\<close>

text \<open>
  C1 (as amended). From any journal state, the events \<open>request\<close>, \<open>response\<close>,
  \<open>requestfinished\<close> for one URL leave a record with status \<open>finished\<close> that holds the
  response. With \<open>requestfailed\<close> in place of \<open>requestfinished\<close> the status is \<open>failed\<close> and
  the error is the \<open>errorText\<close> of \<open>request.failure()\<close>: present exactly when the failure
  object is. The same holds without a \<open>response\<close> event, the response then being absent.
\<close>

theorem network_lifecycle:
  assumes "resp_url rs = req_url rq" and "req_url rq' = req_url rq"
  shows "record_for (handleRequestFinished (handleResponse (handleRequest t rq) rs) rq') (req_url rq)
           = Some \<lparr>nr_request = rq, nr_response = Some rs, nr_status = Finished, nr_error = None\<rparr>
       \<and> record_for (handleRequestFailed (handleResponse (handleRequest t rq) rs) rq') (req_url rq)
           = Some \<lparr>nr_request = rq, nr_response = Some rs, nr_status = Failed,
                   nr_error = req_failure rq'\<rparr>
       \<and> record_for (handleRequestFailed (handleRequest t rq) rq') (req_url rq)
           = Some \<lparr>nr_request = rq, nr_response = None, nr_status = Failed,
                   nr_error = req_failure rq'\<rparr>"
  using assms by (simp add: record_for_simps)

theorem network_lifecycle_witness:
  "resp_url example_response = req_url example_request
   \<and> req_url (example_request\<lparr>req_failure := Some ''net::ERR_FAILED''\<rparr>) = req_url example_request
   \<and> record_for (handleRequestFinished (handleResponse (handleRequest new_tab example_request)
          example_response) (example_request\<lparr>req_failure := Some ''net::ERR_FAILED''\<rparr>))
        ''https://a/x''
      = Some \<lparr>nr_request = example_request, nr_response = Some example_response,
              nr_status = Finished, nr_error = None\<rparr>
   \<and> record_for (handleRequestFailed (handleResponse (handleRequest new_tab example_request)
          example_response) (example_request\<lparr>req_failure := Some ''net::ERR_FAILED''\<rparr>))
        ''https://a/x''
      = Some \<lparr>nr_request = example_request, nr_response = Some example_response,
              nr_status = Failed, nr_error = Some ''net::ERR_FAILED''\<rparr>"
  using network_lifecycle [of example_response example_request
      "example_request\<lparr>req_failure := Some ''net::ERR_FAILED''\<rparr>" new_tab]
  by (simp add: example_request_def example_response_def)

text \<open>
  C1 as stated fails: a \<open>requestfailed\<close> event whose request has no failure object
  (\<open>request.failure()\<close> is \<open>null\<close>) leaves the record failed with no error text.
\<close>

theorem network_failed_without_error_text:
  "map_option nr_status (record_for (handleRequestFailed (handleResponse
       (handleRequest new_tab example_request) example_response) example_request) ''https://a/x'')
     = Some Failed
   \<and> map_option nr_error (record_for (handleRequestFailed (handleResponse
       (handleRequest new_tab example_request) example_response) example_request) ''https://a/x'')
     = Some None"
  by (simp add: record_for_simps example_request_def example_response_def)

text \<open>
  C2. The modal-state stack is empty when the race starts, and while page events that push
  no modal state go by, the action stays pending. Then a modal state is pushed. From that
  moment the race is settled with exactly that modal state, whatever follows: the action
  fulfilling or rejecting later, or more modal states, leave the result as it is.
\<close>

theorem race_modal_state_first:
  assumes "modalStates t = []" and "list_all (\<lambda>e. \<not> is_modal_event e) pre"
  shows "race_result (race_run (raceAgainstModalStates t)
           (map Page pre @ Page (SetModalState m) # post)) = Some (Inr [m])"
proof -
  let ?r = "race_run (raceAgainstModalStates t) (map Page pre)"
  have r: "?r = (raceAgainstModalStates t)\<lparr>race_tab := foldl handleTabEvent t pre\<rparr>"
    using race_run_quiet [OF assms(2), of "raceAgainstModalStates t"] assms(1)
    by (simp add: raceAgainstModalStates_def)
  have "race_result (race_step ?r (Page (SetModalState m))) = Some (Inr [m])"
    unfolding r using assms(1)
    by (simp add: race_step_modal raceAgainstModalStates_def emit_modalState_def race_result_settle)
  then have "race_result (race_run (race_step ?r (Page (SetModalState m))) post) = Some (Inr [m])"
    by (rule race_run_settled)
  then show ?thesis
    by (simp add: race_run_append race_run_Cons)
qed

theorem race_modal_state_first_witness:
  "modalStates example_page = []
   \<and> race_result (race_run (raceAgainstModalStates example_page)
        (map Page [Console example_log] @ Page (SetModalState example_dialog)
           # [ActionResolves (), Page (SetModalState example_dialog)]))
     = Some (Inr [example_dialog])"
proof -
  have h: "modalStates example_page = []"
    by (simp add: example_page_def new_tab_def)
  have q: "list_all (\<lambda>e. \<not> is_modal_event e) [Console example_log]"
    by simp
  show ?thesis
    using h race_modal_state_first [OF h q, of example_dialog
        "[ActionResolves (), Page (SetModalState example_dialog)]"]
    by simp
qed

text \<open>
  C3. The modal-state stack is empty when the race starts and the action resolves before
  any modal state is pushed. Then the race is settled with the empty sequence and the
  one-shot listener is removed; whatever follows, a modal state pushed later included, the
  result stays the empty sequence, the listener stays removed and was never called, and
  the \<open>ManualPromise\<close> stays unresolved.
\<close>

theorem race_action_first:
  assumes "modalStates t = []" and "list_all (\<lambda>e. \<not> is_modal_event e) pre"
  shows "race_result (race_run (raceAgainstModalStates t)
           (map Page pre @ ActionResolves a # post)) = Some (Inr [])
       \<and> \<not> listener (race_run (raceAgainstModalStates t)
           (map Page pre @ ActionResolves a # post))
       \<and> listener_calls (race_run (raceAgainstModalStates t)
           (map Page pre @ ActionResolves a # post)) = 0
       \<and> manual_promise (race_run (raceAgainstModalStates t)
           (map Page pre @ ActionResolves a # post)) = None"
proof -
  let ?r = "race_run (raceAgainstModalStates t) (map Page pre)"
  let ?r1 = "race_step ?r (ActionResolves a)"
  have r: "?r = (raceAgainstModalStates t)\<lparr>race_tab := foldl handleTabEvent t pre\<rparr>"
    using race_run_quiet [OF assms(2), of "raceAgainstModalStates t"] assms(1)
    by (simp add: raceAgainstModalStates_def)
  have 1: "race_result ?r1 = Some (Inr [])" "\<not> listener ?r1" "listener_calls ?r1 = 0"
      "manual_promise ?r1 = None"
    unfolding r using assms(1)
    by (simp_all add: race_step_resolves raceAgainstModalStates_def race_result_settle)
  have run: "race_run (raceAgainstModalStates t) (map Page pre @ ActionResolves a # post)
      = race_run ?r1 post"
    by (simp add: race_run_append race_run_Cons)
  show ?thesis
    unfolding run
    using race_run_settled [OF 1(1), of post] race_run_no_listener [OF 1(2), of post] 1(3,4)
    by simp
qed

theorem race_action_first_witness:
  "modalStates example_page = []
   \<and> race_result (race_run (raceAgainstModalStates example_page)
        (map Page [Console example_log] @ ActionResolves ()
           # [Page (SetModalState example_dialog)])) = Some (Inr [])
   \<and> \<not> listener (race_run (raceAgainstModalStates example_page)
        (map Page [Console example_log] @ ActionResolves ()
           # [Page (SetModalState example_dialog)]))
   \<and> listener_calls (race_run (raceAgainstModalStates example_page)
        (map Page [Console example_log] @ ActionResolves ()
           # [Page (SetModalState example_dialog)])) = 0"
proof -
  have h: "modalStates example_page = []"
    by (simp add: example_page_def new_tab_def)
  have q: "list_all (\<lambda>e. \<not> is_modal_event e) [Console example_log]"
    by simp
  show ?thesis
    using h race_action_first [OF h q, of "()" "[Page (SetModalState example_dialog)]"]
    by simp
qed

text \<open>
  C4. When \<open>page.goto\<close> fails with a message that contains \<open>net::ERR_ABORTED\<close> or
  \<open>Download is starting\<close> and the download event arrives before the 3000 ms timer fires,
  \<open>navigate\<close> returns normally (500 ms later). When no download arrives in that time, it
  throws the original error. When the message contains neither pattern, it throws the
  original error at once. A download that arrives in the very millisecond in which the
  timer fires is in time when its callback is queued before the timer's, and late when it
  is queued after.
\<close>

theorem navigate_download_heuristic:
  "((js_includes message ''net::ERR_ABORTED'' \<or> js_includes message ''Download is starting'')
      \<and> (t < 3000 \<or> (t = 3000 \<and> tie = Promise_first))
     \<longrightarrow> navigate tie (Some message) (Fulfils t (Some download)) = (Inr (), t + 500))
   \<and> ((js_includes message ''net::ERR_ABORTED'' \<or> js_includes message ''Download is starting'')
      \<and> (case downloadEvent of
            Fulfils t' v \<Rightarrow> 3000 < t' \<or> (t' = 3000 \<and> tie = Timer_first) \<or> v = None
          | Rejects t' e \<Rightarrow> 3000 < t' \<or> (t' = 3000 \<and> tie = Timer_first)
          | Pending_forever \<Rightarrow> True)
     \<longrightarrow> fst (navigate tie (Some message) downloadEvent) = Inl message)
   \<and> (\<not> js_includes message ''net::ERR_ABORTED'' \<and> \<not> js_includes message ''Download is starting''
     \<longrightarrow> navigate tie (Some message) downloadEvent = (Inl message, 0))"
proof (intro conjI impI)
  assume "(js_includes message ''net::ERR_ABORTED'' \<or> js_includes message ''Download is starting'')
      \<and> (t < 3000 \<or> (t = 3000 \<and> tie = Promise_first))"
  then show "navigate tie (Some message) (Fulfils t (Some download)) = (Inr (), t + 500)"
    by (auto simp add: navigate_def mightBeDownload_def race_timer_def race_timer_elapsed_def)
next
  assume a: "(js_includes message ''net::ERR_ABORTED'' \<or> js_includes message ''Download is starting'')
      \<and> (case downloadEvent of
            Fulfils t' v \<Rightarrow> 3000 < t' \<or> (t' = 3000 \<and> tie = Timer_first) \<or> v = None
          | Rejects t' e \<Rightarrow> 3000 < t' \<or> (t' = 3000 \<and> tie = Timer_first)
          | Pending_forever \<Rightarrow> True)"
  then have m: "mightBeDownload message"
    by (simp add: mightBeDownload_def)
  show "fst (navigate tie (Some message) downloadEvent) = Inl message"
  proof (cases downloadEvent)
    case (Fulfils t' v)
    with a m show ?thesis
      by (cases v; cases tie) (auto simp add: navigate_def race_timer_def)
  next
    case (Rejects t' e)
    with a m show ?thesis
      by (cases tie) (auto simp add: navigate_def race_timer_def)
  next
    case Pending_forever
    with m show ?thesis
      by (simp add: navigate_def race_timer_def)
  qed
next
  assume "\<not> js_includes message ''net::ERR_ABORTED'' \<and> \<not> js_includes message ''Download is starting''"
  then show "navigate tie (Some message) downloadEvent = (Inl message, 0)"
    by (simp add: navigate_def mightBeDownload_def)
qed

theorem navigate_download_heuristic_witness:
  "navigate Timer_first (Some ''page.goto: net::ERR_ABORTED at https://a/file.zip'')
       (Fulfils 120 (Some 7))
     = (Inr (), 620)
   \<and> navigate Promise_first (Some ''page.goto: net::ERR_ABORTED at https://a/file.zip'')
       (Fulfils 3000 (Some 7))
     = (Inr (), 3500)
   \<and> fst (navigate Timer_first (Some ''page.goto: net::ERR_ABORTED at https://a/file.zip'')
       (Fulfils 3000 (Some 7)))
     = Inl ''page.goto: net::ERR_ABORTED at https://a/file.zip''
   \<and> fst (navigate Promise_first (Some ''page.goto: net::ERR_ABORTED at https://a/file.zip'')
       Pending_forever)
     = Inl ''page.goto: net::ERR_ABORTED at https://a/file.zip''
   \<and> navigate Promise_first (Some ''page.goto: net::ERR_CONNECTION_REFUSED at https://a/'')
       (Fulfils 120 (Some 7))
     = (Inl ''page.goto: net::ERR_CONNECTION_REFUSED at https://a/'', 0)"
proof -
  have a: "js_includes ''page.goto: net::ERR_ABORTED at https://a/file.zip'' ''net::ERR_ABORTED''"
    by simp
  have b: "\<not> js_includes ''page.goto: net::ERR_CONNECTION_REFUSED at https://a/'' ''net::ERR_ABORTED''"
    "\<not> js_includes ''page.goto: net::ERR_CONNECTION_REFUSED at https://a/'' ''Download is starting''"
    by simp_all
  show ?thesis
    using a b
      navigate_download_heuristic [where message = "''page.goto: net::ERR_ABORTED at https://a/file.zip''"
        and t = 120 and tie = Timer_first and download = 7
        and downloadEvent = "Fulfils 3000 (Some 7)"]
      navigate_download_heuristic [where message = "''page.goto: net::ERR_ABORTED at https://a/file.zip''"
        and t = 3000 and tie = Promise_first and download = 7
        and downloadEvent = Pending_forever]
      navigate_download_heuristic [where message = "''page.goto: net::ERR_CONNECTION_REFUSED at https://a/''"
        and t = 120 and tie = Promise_first and download = 7
        and downloadEvent = "Fulfils 120 (Some 7)"]
    by simp
qed

text \<open>
  C5 (as amended). While the capture runs, page events that push no modal state go by.
  If the stack was empty and the capture then completes, the snapshot holds the page's URL,
  title and aria snapshot, the downloads, and as its console list the recent journal as it is
  at that moment, which is then emptied; the full journal is left alone. If instead a modal
  state is pushed, or the stack was not empty at the start, the snapshot holds the observed
  modal states and the page's current URL and is empty otherwise; the recent journal is not
  drained.
\<close>

theorem captureSnapshot_result:
  assumes "list_all (\<lambda>e. \<not> is_modal_event e) pre"
  shows "(modalStates t = [] \<longrightarrow>
            captureSnapshot mode t (map Page pre @ ActionResolves (snapshot, title) # post) =
              Some (Inr \<lparr>ts_url = page_url (foldl handleTabEvent t pre), ts_title = title,
                         ts_ariaSnapshot = snapshot, ts_modalStates = [],
                         ts_consoleMessages = recentConsoleMessages (foldl handleTabEvent t pre),
                         ts_downloads = downloads (foldl handleTabEvent t pre)\<rparr>,
                    (foldl handleTabEvent t pre)\<lparr>recentConsoleMessages := []\<rparr>))
       \<and> (modalStates t = [] \<longrightarrow>
            captureSnapshot mode t (map Page pre @ Page (SetModalState m) # post) =
              Some (Inr \<lparr>ts_url = page_url (foldl handleTabEvent t pre), ts_title = '''',
                         ts_ariaSnapshot = '''', ts_modalStates = [m],
                         ts_consoleMessages = [], ts_downloads = []\<rparr>,
                    setModalState_push (foldl handleTabEvent t pre) m))
       \<and> (modalStates t \<noteq> [] \<longrightarrow>
            captureSnapshot mode t evs =
              Some (Inr \<lparr>ts_url = page_url t, ts_title = '''', ts_ariaSnapshot = '''',
                         ts_modalStates = modalStates t, ts_consoleMessages = [],
                         ts_downloads = []\<rparr>, t))"
proof (intro conjI impI)
  assume e: "modalStates t = []"
  then have none: "race_result (raceAgainstModalStates t :: (string \<times> string) race) = None"
    by (simp add: raceAgainstModalStates_def)
  show "captureSnapshot mode t (map Page pre @ ActionResolves (snapshot, title) # post) =
      Some (Inr \<lparr>ts_url = page_url (foldl handleTabEvent t pre), ts_title = title,
                 ts_ariaSnapshot = snapshot, ts_modalStates = [],
                 ts_consoleMessages = recentConsoleMessages (foldl handleTabEvent t pre),
                 ts_downloads = downloads (foldl handleTabEvent t pre)\<rparr>,
            (foldl handleTabEvent t pre)\<lparr>recentConsoleMessages := []\<rparr>)"
    unfolding captureSnapshot_def await_quiet [OF none assms]
    using e
    by (subst await_settled [where res = "Inr []"])
       (simp_all add: race_step_resolves raceAgainstModalStates_def race_result_settle
          captureSnapshot_continue_def)
  show "captureSnapshot mode t (map Page pre @ Page (SetModalState m) # post) =
      Some (Inr \<lparr>ts_url = page_url (foldl handleTabEvent t pre), ts_title = '''',
                 ts_ariaSnapshot = '''', ts_modalStates = [m],
                 ts_consoleMessages = [], ts_downloads = []\<rparr>,
            setModalState_push (foldl handleTabEvent t pre) m)"
    unfolding captureSnapshot_def await_quiet [OF none assms]
    using e
    by (subst await_settled [where res = "Inr [m]"])
       (simp_all add: race_step_modal raceAgainstModalStates_def race_result_settle
          captureSnapshot_continue_def emit_modalState_def setModalState_push_def)
next
  assume "modalStates t \<noteq> []"
  then show "captureSnapshot mode t evs =
      Some (Inr \<lparr>ts_url = page_url t, ts_title = '''', ts_ariaSnapshot = '''',
                 ts_modalStates = modalStates t, ts_consoleMessages = [],
                 ts_downloads = []\<rparr>, t)"
    unfolding captureSnapshot_def
    by (subst await_settled [where res = "Inr (modalStates t)"])
       (simp_all add: raceAgainstModalStates_def captureSnapshot_continue_def)
qed

theorem captureSnapshot_result_witness:
  "captureSnapshot Full example_page
      (map Page [Console example_log] @ ActionResolves (''- button \"Go\"'', ''A'') # [])
     = Some (Inr \<lparr>ts_url = ''https://a/x'', ts_title = ''A'',
                   ts_ariaSnapshot = ''- button \"Go\"'', ts_modalStates = [],
                   ts_consoleMessages = [example_log], ts_downloads = []\<rparr>,
             example_page\<lparr>consoleMessages := [example_log], recentConsoleMessages := []\<rparr>)
   \<and> captureSnapshot Full example_page
      (map Page [Console example_log] @ Page (SetModalState example_dialog) # [])
     = Some (Inr \<lparr>ts_url = ''https://a/x'', ts_title = '''', ts_ariaSnapshot = '''',
                   ts_modalStates = [example_dialog], ts_consoleMessages = [],
                   ts_downloads = []\<rparr>,
             example_page\<lparr>consoleMessages := [example_log],
                recentConsoleMessages := [example_log], modalStates := [example_dialog]\<rparr>)
   \<and> captureSnapshot Full example_blocked_page []
     = Some (Inr \<lparr>ts_url = ''https://a/x'', ts_title = '''', ts_ariaSnapshot = '''',
                   ts_modalStates = [example_dialog], ts_consoleMessages = [],
                   ts_downloads = []\<rparr>, example_blocked_page)"
proof -
  have q: "list_all (\<lambda>e. \<not> is_modal_event e) [Console example_log]"
    by simp
  have n: "\<not> is_noise example_log"
    by code_simp
  have t: "foldl handleTabEvent example_page [Console example_log]
      = example_page\<lparr>consoleMessages := [example_log], recentConsoleMessages := [example_log]\<rparr>"
    using n by (simp add: handleConsoleMessage_def shouldCapture_iff_not_noise example_page_def new_tab_def)
  show ?thesis
    using captureSnapshot_result [OF q, of example_page Full "''- button \"Go\"''" "''A''" "[]"
        example_dialog "[]"]
      captureSnapshot_result [OF q, of example_blocked_page Full "''''" "''''" "[]"
        example_dialog "[]"]
    unfolding t
    by (simp add: example_page_def example_blocked_page_def new_tab_def setModalState_push_def)
qed

text \<open>
  C5 as stated fails: the snapshot of an interrupted capture is not empty but for its modal
  states, it carries the URL of the page.
\<close>

theorem captureSnapshot_interrupted_has_url:
  "captureSnapshot Full example_blocked_page []
     = Some (Inr \<lparr>ts_url = ''https://a/x'', ts_title = '''', ts_ariaSnapshot = '''',
                   ts_modalStates = [example_dialog], ts_consoleMessages = [],
                   ts_downloads = []\<rparr>, example_blocked_page)
   \<and> captureSnapshot Full example_blocked_page []
     \<noteq> Some (Inr (empty_snapshot [example_dialog]), example_blocked_page)"
  by (simp add: captureSnapshot_def raceAgainstModalStates_def captureSnapshot_continue_def
        example_blocked_page_def new_tab_def empty_snapshot_def)

text \<open>
  C6 (as amended). Every reference of the batch is resolved on its own, and one that the
  page does not know fails with the message \<open>Ref ... not found in the current page
  snapshot\<close>. \<open>refLocators\<close> returns the locators, in the order of the batch, once every
  resolution has settled and every reference resolved. As soon as a resolution fails, all
  that settled earlier having resolved, the call fails as a whole with the error of that
  reference, the first rejection to settle, whether or not the other resolutions have
  settled, and returns no result for them. While nothing has failed and a resolution is
  outstanding, the call is pending.
\<close>

theorem refLocators_batch:
  "(list_all (\<lambda>i. i \<in> set order) [0..<length params]
      \<and> map Inr locators = resolveReferences_settled resolveSelector asLocator params
     \<longrightarrow> refLocators resolveSelector asLocator params order = Some (Inr locators))
   \<and> (i < length params
      \<and> resolveSelector (''aria-ref='' @ rp_ref (params ! i)) = None
      \<and> list_all (\<lambda>j. j < length params
                        \<longrightarrow> resolveSelector (''aria-ref='' @ rp_ref (params ! j)) \<noteq> None) earlier
     \<longrightarrow> refLocators resolveSelector asLocator params (earlier @ i # later)
           = Some (Inl (ref_not_found (rp_ref (params ! i)))))
   \<and> (list_all (\<lambda>j. j < length params
                        \<longrightarrow> resolveSelector (''aria-ref='' @ rp_ref (params ! j)) \<noteq> None) order
      \<and> list_ex (\<lambda>i. i \<notin> set order) [0..<length params]
     \<longrightarrow> refLocators resolveSelector asLocator params order = None)"
proof (intro conjI impI)
  assume a: "list_all (\<lambda>i. i \<in> set order) [0..<length params]
      \<and> map Inr locators = resolveReferences_settled resolveSelector asLocator params"
  then have eq: "map (refLocator_one resolveSelector asLocator) params = map Inr locators"
    by (simp add: resolveReferences_settled_def)
  then have "length locators = length params"
    by (metis length_map)
  with a show "refLocators resolveSelector asLocator params order = Some (Inr locators)"
    unfolding refLocators_def eq promise_all_fulfilled
    by (simp add: list_ex_iff list_all_iff)
next
  let ?rs = "map (refLocator_one resolveSelector asLocator) params"
  assume a: "i < length params
      \<and> resolveSelector (''aria-ref='' @ rp_ref (params ! i)) = None
      \<and> list_all (\<lambda>j. j < length params
                        \<longrightarrow> resolveSelector (''aria-ref='' @ rp_ref (params ! j)) \<noteq> None) earlier"
  then have i: "i < length ?rs" and e: "?rs ! i = Inl (ref_not_found (rp_ref (params ! i)))"
    by (simp_all add: refLocator_one_def)
  from a have "list_all (\<lambda>j. j < length ?rs \<longrightarrow> \<not> isl (?rs ! j)) earlier"
    by (auto simp: list_all_iff refLocator_one_def)
  from first_rejection_at [OF i e this]
  show "refLocators resolveSelector asLocator params (earlier @ i # later)
      = Some (Inl (ref_not_found (rp_ref (params ! i))))"
    by (simp add: refLocators_def promise_all_def)
next
  let ?rs = "map (refLocator_one resolveSelector asLocator) params"
  assume a: "list_all (\<lambda>j. j < length params
                        \<longrightarrow> resolveSelector (''aria-ref='' @ rp_ref (params ! j)) \<noteq> None) order
      \<and> list_ex (\<lambda>i. i \<notin> set order) [0..<length params]"
  then have "first_rejection ?rs order = None"
    by (auto simp: first_rejection_None_iff list_all_iff refLocator_one_def)
  with a show "refLocators resolveSelector asLocator params order = None"
    by (simp add: refLocators_def promise_all_def)
qed

theorem refLocators_batch_witness:
  "refLocators example_resolveSelector example_asLocator [hd example_refs] [0]
     = Some (Inr [\<lparr>rl_selector = ''aria-ref=e1'', rl_description = ''Submit button'',
                    rl_resolved = ''locator(internal:role=button)''\<rparr>])
   \<and> refLocators example_resolveSelector example_asLocator example_stale_refs ([] @ 1 # [0])
     = Some (Inl ''Ref e9 not found in the current page snapshot. Try capturing new snapshot.'')
   \<and> refLocators example_resolveSelector example_asLocator example_stale_refs ([] @ 0 # [1])
     = Some (Inl ''Ref e8 not found in the current page snapshot. Try capturing new snapshot.'')
   \<and> refLocators example_resolveSelector example_asLocator example_stale_refs ([] @ 1 # [])
     = Some (Inl ''Ref e9 not found in the current page snapshot. Try capturing new snapshot.'')
   \<and> refLocators example_resolveSelector example_asLocator example_refs ([0] @ 1 # [])
     = Some (Inl ''Ref e9 not found in the current page snapshot. Try capturing new snapshot.'')
   \<and> refLocators example_resolveSelector example_asLocator example_refs [0] = None"
proof -
  have s: "map Inr [\<lparr>rl_selector = ''aria-ref=e1'', rl_description = ''Submit button'',
                    rl_resolved = ''locator(internal:role=button)''\<rparr>]
      = resolveReferences_settled example_resolveSelector example_asLocator [hd example_refs]"
    by (simp add: resolveReferences_settled_def refLocator_one_def example_refs_def
        example_resolveSelector_def example_asLocator_def)
  have n: "example_stale_refs ! Suc 0 = \<lparr>rp_element = ''Stale link'', rp_ref = ''e9''\<rparr>"
    "example_stale_refs ! 0 = \<lparr>rp_element = ''Old menu'', rp_ref = ''e8''\<rparr>"
    "example_refs ! Suc 0 = \<lparr>rp_element = ''Stale link'', rp_ref = ''e9''\<rparr>"
    "example_refs ! 0 = \<lparr>rp_element = ''Submit button'', rp_ref = ''e1''\<rparr>"
    "length example_stale_refs = 2" "length example_refs = 2"
    by (simp_all add: example_stale_refs_def example_refs_def)
  show ?thesis
    using s
      refLocators_batch [where params = "[hd example_refs]" and order = "[0]"
        and locators = "[\<lparr>rl_selector = ''aria-ref=e1'', rl_description = ''Submit button'',
          rl_resolved = ''locator(internal:role=button)''\<rparr>]"
        and resolveSelector = example_resolveSelector and asLocator = example_asLocator
        and i = 0 and earlier = "[]" and later = "[]"]
      refLocators_batch [where params = example_stale_refs and order = "[]"
        and locators = "[]"
        and resolveSelector = example_resolveSelector and asLocator = example_asLocator
        and i = 1 and earlier = "[]" and later = "[0]"]
      refLocators_batch [where params = example_stale_refs and order = "[]"
        and locators = "[]"
        and resolveSelector = example_resolveSelector and asLocator = example_asLocator
        and i = 0 and earlier = "[]" and later = "[1]"]
      refLocators_batch [where params = example_stale_refs and order = "[]"
        and locators = "[]"
        and resolveSelector = example_resolveSelector and asLocator = example_asLocator
        and i = 1 and earlier = "[]" and later = "[]"]
      refLocators_batch [where params = example_refs and order = "[0]"
        and locators = "[]"
        and resolveSelector = example_resolveSelector and asLocator = example_asLocator
        and i = 1 and earlier = "[0]" and later = "[]"]
    by (simp add: n example_resolveSelector_def ref_not_found_def upt_rec)
qed

text \<open>
  C6 as stated fails: for a batch of a known and an unknown reference the call is
  rejected; the settled results of the specification, one per reference, are not what it
  returns.
\<close>

theorem refLocators_rejects_whole_batch:
  "refLocators example_resolveSelector example_asLocator example_refs [0, 1]
     = Some (Inl ''Ref e9 not found in the current page snapshot. Try capturing new snapshot.'')
   \<and> resolveReferences_settled example_resolveSelector example_asLocator example_refs
     = [Inr \<lparr>rl_selector = ''aria-ref=e1'', rl_description = ''Submit button'',
              rl_resolved = ''locator(internal:role=button)''\<rparr>,
        Inl ''Ref e9 not found in the current page snapshot. Try capturing new snapshot.'']"
  by (simp add: refLocators_def promise_all_def refLocator_one_def example_refs_def
        example_resolveSelector_def example_asLocator_def ref_not_found_def
        resolveReferences_settled_def)

text \<open>
  C7. The code at the input where it departs from the claim: with no dialog open,
  \<open>waitForTimeout(5000)\<close> sleeps 1000 ms in the page, not the 5000 ms asked for; with a
  dialog open it sleeps the 5000 ms in the controller.
\<close>

theorem waitForTimeout_ignores_duration_in_page:
  "waitForTimeout example_page 5000 = PageSleep 1000
   \<and> waitForTimeout example_blocked_page 5000 = ControllerSleep 5000"
  by (simp add: waitForTimeout_def javaScriptBlocked_def example_page_def
        example_blocked_page_def example_dialog_def new_tab_def)

text \<open>
  C8. A console or page-error entry whose text or long form contains a deny-listed
  substring, compared without regard to case, leaves both journals as they are; any other
  entry is appended to both.
\<close>

theorem console_filter:
  "handleConsoleMessage t message =
     (if is_noise message then t
      else t\<lparr>consoleMessages := consoleMessages t @ [message],
             recentConsoleMessages := recentConsoleMessages t @ [message]\<rparr>)"
  by (simp add: handleConsoleMessage_def shouldCapture_iff_not_noise)

text \<open>
  C9 (as amended). For a record stored under a URL, whatever its status: an event for
  another URL and a \<open>response\<close> event for the same URL leave the status as it is; a
  \<open>request\<close> event for the same URL puts a pending record in its place, \<open>requestfinished\<close>
  sets the status to \<open>finished\<close> and \<open>requestfailed\<close> sets it to \<open>failed\<close>.
\<close>

theorem status_after_event:
  assumes "record_for t u = Some d"
  shows "map_option nr_status (record_for (handleNetworkEvent t e) u) =
           Some (if event_url e \<noteq> u then nr_status d
                 else case e of
                        EvRequest rq \<Rightarrow> Pending
                      | EvResponse rs \<Rightarrow> nr_status d
                      | EvRequestFinished rq \<Rightarrow> Finished
                      | EvRequestFailed rq \<Rightarrow> Failed)"
  using assms by (cases e) (auto simp add: record_for_simps)

theorem status_after_event_witness:
  "record_for (handleRequestFinished (handleRequest new_tab example_request) example_request)
       ''https://a/x''
     = Some \<lparr>nr_request = example_request, nr_response = None, nr_status = Finished,
             nr_error = None\<rparr>
   \<and> map_option nr_status (record_for (handleNetworkEvent
         (handleRequestFinished (handleRequest new_tab example_request) example_request)
         (EvResponse example_response)) ''https://a/x'')
     = Some Finished"
proof -
  have h: "record_for (handleRequestFinished (handleRequest new_tab example_request)
             example_request) ''https://a/x''
           = Some \<lparr>nr_request = example_request, nr_response = None, nr_status = Finished,
                   nr_error = None\<rparr>"
    by (simp add: record_for_simps example_request_def)
  show ?thesis
    using h status_after_event [OF h, of "EvResponse example_response"]
    by (simp add: example_response_def)
qed

text \<open>
  C9 as stated fails: a finished record becomes failed on a later \<open>requestfailed\<close> event
  for its URL, and pending again on a later \<open>request\<close> event.
\<close>

theorem finished_status_not_terminal:
  "map_option nr_status (record_for
       (handleRequestFinished (handleRequest new_tab example_request) example_request)
       ''https://a/x'') = Some Finished
   \<and> map_option nr_status (record_for (handleNetworkEvent
       (handleRequestFinished (handleRequest new_tab example_request) example_request)
       (EvRequestFailed example_request)) ''https://a/x'') = Some Failed
   \<and> map_option nr_status (record_for (handleNetworkEvent
       (handleRequestFinished (handleRequest new_tab example_request) example_request)
       (EvRequest example_request)) ''https://a/x'') = Some Pending"
  by (simp add: record_for_simps example_request_def)

text \<open>
  C10. For a request of type \<open>xhr\<close>, \<open>fetch\<close> or \<open>document\<close>: on the text path (a content
  type with \<open>text/\<close> or \<open>application/javascript\<close> and without \<open>application/json\<close>) a body
  read in time is cut to its first 5000 code units followed by \<open>... (truncated)\<close> when it is
  longer than 5000, and returned as it is otherwise. On the JSON path the parsed value, or
  the text read after parsing failed, is returned whole.
\<close>

theorem renderRequest_text_limit:
  assumes "List.member CAPTURE_BODY_RESOURCE_TYPES resourceType"
  shows "(\<not> js_includes contentType ''application/json''
          \<and> (js_includes contentType ''text/'' \<or> js_includes contentType ''application/javascript'')
          \<and> t < 2000
         \<longrightarrow> renderRequest_body tie resourceType (Some contentType) (json :: 'j promise)
               (Fulfils t text) =
               Text (if length text > 5000 then take 5000 text @ ''... (truncated)'' else text))
       \<and> (js_includes contentType ''application/json'' \<and> t < 2000
         \<longrightarrow> renderRequest_body tie resourceType (Some contentType) (Fulfils t (j :: 'j))
               text_promise = Json j)
       \<and> (js_includes contentType ''application/json'' \<and> t + t' < 2000
         \<longrightarrow> renderRequest_body tie resourceType (Some contentType) (Rejects t e)
               (Fulfils t' text) =
               (Text text :: 'j body))"
proof -
  have body: "renderRequest_body tie resourceType (Some contentType) js tx =
     (if js_includes contentType ''application/json''
      then (case withTimeout tie
                   (catch_async (then_map Json js)
                      (then_map Text (catch_value tx ''<body unavailable>'')))
                   2000 (Text ''<body capture timeout>'') of
              Inl e \<Rightarrow> Text ''<failed to capture body>''
            | Inr b \<Rightarrow> b)
      else if js_includes contentType ''text/''
              \<or> js_includes contentType ''application/javascript''
      then (case withTimeout tie (catch_value tx ''<body unavailable>'') 2000
                   ''<body capture timeout>'' of
              Inl e \<Rightarrow> Text ''<failed to capture body>''
            | Inr text' \<Rightarrow>
                Text (if length text' > 5000
                      then take 5000 text' @ ''... (truncated)''
                      else text'))
      else Text ''<non-text content>'')" for js :: "'j promise" and tx
    unfolding renderRequest_body_def Let_def using assms by simp
  show ?thesis
    by (simp add: body withTimeout_def race_timer_def catch_value_def
        catch_async_def then_map_def delay_def)
qed

theorem renderRequest_text_limit_witness:
  "renderRequest_body Timer_first ''fetch'' (Some ''text/plain; charset=utf-8'')
       (Rejects 10 ''not json'') (Fulfils 30 (replicate 5001 CHR ''a''))
     = (Text (replicate 5000 CHR ''a'' @ ''... (truncated)'') :: unit body)
   \<and> renderRequest_body Timer_first ''fetch'' (Some ''application/json'')
       (Rejects 10 ''not json'') (Fulfils 30 (replicate 5001 CHR ''a''))
     = (Text (replicate 5001 CHR ''a'') :: unit body)
   \<and> renderRequest_body Timer_first ''fetch'' (Some ''application/json'') (Fulfils 10 ())
       (Fulfils 30 (replicate 5001 CHR ''a''))
     = Json ()"
proof -
  have m: "List.member CAPTURE_BODY_RESOURCE_TYPES ''fetch''"
    by (simp add: CAPTURE_BODY_RESOURCE_TYPES_def)
  have c: "\<not> js_includes ''text/plain; charset=utf-8'' ''application/json''"
    "js_includes ''text/plain; charset=utf-8'' ''text/''"
    "js_includes ''application/json'' ''application/json''"
    by simp_all
  show ?thesis
    using c
      renderRequest_text_limit [OF m, of "''text/plain; charset=utf-8''" 30 Timer_first
        "Rejects 10 ''not json'' :: unit promise" "replicate 5001 CHR ''a''" "()" Pending_forever
        0 "''x''"]
      renderRequest_text_limit [OF m, of "''application/json''" 10 Timer_first
        "Rejects 10 ''not json'' :: unit promise" "replicate 5001 CHR ''a''" "()"
        "Fulfils 30 (replicate 5001 CHR ''a'')" 30 "''not json''"]
    by simp
qed

end
